theory Spec2Isabelle
  imports Main "HOL-Library.Word"
begin

section \<open>The frequency counter of counter.c\<close>

text \<open>
  counter.c runs on an 8-bit AVR built with avr-gcc: \<open>unsigned char\<close> is 8 bits wide,
  \<open>int\<close> is 16 bits wide and two's complement, \<open>unsigned long\<close> and \<open>long\<close> are 32 bits
  wide. Timer/Counter 1 has a 16-bit count register \<open>TCNT1\<close>; Timer/Counter 0 and 2 have
  8-bit count registers. Every other register the program writes is 8 bits wide.
\<close>

subsection \<open>Data\<close>

text \<open>
  \<open>FLAGS_TYPE\<close>: a union of eight one-bit fields with the byte \<open>Val\<close>. Each one-bit field
  is a boolean (1 is \<open>True\<close>); storing 0 through \<open>Val\<close> clears all eight.
\<close>

record FLAGS_TYPE =
  dataReady :: bool
  lastSec :: bool
  bit2 :: bool
  bit3 :: bool
  bit4 :: bool
  bit5 :: bool
  bit6 :: bool
  bit7 :: bool

definition flags_Val_0 :: FLAGS_TYPE where
  "flags_Val_0 =
     \<lparr>dataReady = False, lastSec = False, bit2 = False, bit3 = False,
      bit4 = False, bit5 = False, bit6 = False, bit7 = False\<rparr>"

text \<open>The calls made to the LCD driver (lcd/hd44780), in the order they are made.\<close>

datatype lcd_call = Lcd_init | Lcd_putstr string | Lcd_clearLine nat

text \<open>
  The machine state: the three globals of counter.c, the I/O registers it stores to
  (each holding the value last stored by the program or counted by the hardware), the
  global interrupt enable bit set by \<open>sei()\<close>, the two locals of \<open>main\<close> and the log of
  driver calls.
\<close>

record state =
  flags :: FLAGS_TYPE
  secTimer :: "8 word"
  freqCounter :: "8 word"
  TCCR1A :: "8 word"
  TCCR1B :: "8 word"
  TCNT1 :: "16 word"
  TIFR1 :: "8 word"
  TIMSK1 :: "8 word"
  TCCR2A :: "8 word"
  TCCR2B :: "8 word"
  TCNT2 :: "8 word"
  TIFR2 :: "8 word"
  TIMSK2 :: "8 word"
  TCNT0 :: "8 word"
  SREG_I :: bool
  frequency :: "32 word"
  tempStr :: string
  lcd :: "lcd_call list"

subsection \<open>Constants\<close>

text \<open>
  \<open>#define ONE_SEC_GATE (10000000UL / 512 / 256)\<close>: unsigned long division.
  \<open>#define LAST_SEC (256 - 29 * 256 / 100)\<close>: 16-bit int arithmetic on small positive
  values, where the truncating division of C and the unsigned division of words agree.
\<close>

definition ONE_SEC_GATE :: "32 word" where
  "ONE_SEC_GATE = 10000000 div 512 div 256"

definition LAST_SEC :: "16 word" where
  "LAST_SEC = 256 - 29 * 256 div 100"

text \<open>
  Bit numbers of avr/io.h for the ATmega48/88/168/328 family: the overflow flag and the
  overflow interrupt enable of both timers are bit 0 of their registers.
\<close>

definition TOV1 :: nat where "TOV1 = 0"
definition TOIE1 :: nat where "TOIE1 = 0"
definition TOV2 :: nat where "TOV2 = 0"
definition TOIE2 :: nat where "TOIE2 = 0"

definition BV :: "nat \<Rightarrow> 8 word" where
  "BV b = push_bit b 1"

subsection \<open>Timer set-up and control\<close>

definition t1_init :: "state \<Rightarrow> state" where
  "t1_init s =
     s\<lparr>TCCR1A := 0, TCCR1B := 0, TCNT1 := 0, TIFR1 := BV TOV1, TIMSK1 := BV TOIE1\<rparr>"

definition t2_init :: "state \<Rightarrow> state" where
  "t2_init s =
     s\<lparr>TCCR2A := 0, TCCR2B := 0, TCNT2 := 0, TIFR2 := BV TOV2, TIMSK2 := BV TOIE2\<rparr>"

definition timer1Off :: "state \<Rightarrow> state" where
  "timer1Off s = s\<lparr>TCCR1B := 0\<rparr>"

definition timer1On :: "state \<Rightarrow> state" where
  "timer1On s = s\<lparr>TCCR1B := 6\<rparr>"

definition timer2Off :: "state \<Rightarrow> state" where
  "timer2Off s = s\<lparr>TCCR2B := 0\<rparr>"

definition timer2On :: "state \<Rightarrow> state" where
  "timer2On s = s\<lparr>TCCR2B := 7\<rparr>"

text \<open>
  \<open>int getTimer1(void) { return(TCNT1); }\<close>: the 16-bit register is returned as a 16-bit
  signed int. The bits are kept; the value of the result is \<open>sint\<close> of them.
\<close>

definition getTimer1 :: "state \<Rightarrow> 16 word" where
  "getTimer1 s = TCNT1 s"

subsection \<open>Interrupt handlers\<close>

definition TIMER1_OVF_vect :: "state \<Rightarrow> state" where
  "TIMER1_OVF_vect s = s\<lparr>freqCounter := freqCounter s + 1\<rparr>"

text \<open>
  The statements of a handler are state transformers run in order. \<open>exec\<close> runs them;
  \<open>trace\<close> lists the state before the first statement and after each one.
\<close>

fun exec :: "(state \<Rightarrow> state) list \<Rightarrow> state \<Rightarrow> state" where
  "exec [] s = s"
| "exec (f # fs) s = exec fs (f s)"

fun trace :: "(state \<Rightarrow> state) list \<Rightarrow> state \<Rightarrow> state list" where
  "trace [] s = [s]"
| "trace (f # fs) s = s # trace fs (f s)"

definition set_dataReady :: "bool \<Rightarrow> state \<Rightarrow> state" where
  "set_dataReady b s = s\<lparr>flags := (flags s)\<lparr>dataReady := b\<rparr>\<rparr>"

definition set_lastSec :: "bool \<Rightarrow> state \<Rightarrow> state" where
  "set_lastSec b s = s\<lparr>flags := (flags s)\<lparr>lastSec := b\<rparr>\<rparr>"

definition dec_secTimer :: "state \<Rightarrow> state" where
  "dec_secTimer s = s\<lparr>secTimer := secTimer s - 1\<rparr>"

definition set_TCNT0 :: "8 word \<Rightarrow> state \<Rightarrow> state" where
  "set_TCNT0 v s = s\<lparr>TCNT0 := v\<rparr>"

text \<open>
  The statements \<open>ISR(TIMER2_OVF_vect)\<close> runs from state \<open>s\<close>: the branch on
  \<open>flags.lastSec\<close>, and in the else branch the test \<open>--secTimer == 0\<close> on the
  decremented 8-bit value. \<open>TCNT0 = LAST_SEC\<close> stores the int into an 8-bit register.
\<close>

definition TIMER2_OVF_stmts :: "state \<Rightarrow> (state \<Rightarrow> state) list" where
  "TIMER2_OVF_stmts s =
     (if lastSec (flags s)
      then [timer1Off, timer2Off, set_dataReady True, set_lastSec False]
      else dec_secTimer #
           (if secTimer s - 1 = 0
            then [set_TCNT0 (ucast LAST_SEC), set_lastSec True]
            else []))"

definition TIMER2_OVF_vect :: "state \<Rightarrow> state" where
  "TIMER2_OVF_vect s = exec (TIMER2_OVF_stmts s) s"

subsection \<open>The decimal conversion of avr-libc\<close>

text \<open>
  \<open>ltoa(val, s, 10)\<close> of avr-libc writes the decimal digits of the signed long \<open>val\<close>,
  with a minus sign in front of a negative value. \<open>main\<close> passes the unsigned long
  \<open>frequency\<close>, whose bits \<open>ltoa\<close> reads as a signed long.
\<close>

definition digit_char :: "nat \<Rightarrow> char" where
  "digit_char d = ''0123456789'' ! d"

function dec_digits :: "nat \<Rightarrow> string" where
  "dec_digits n =
     (if n < 10 then [digit_char n] else dec_digits (n div 10) @ [digit_char (n mod 10)])"
  by pat_completeness auto
termination
  by (relation "measure (\<lambda>n. n)") auto

declare dec_digits.simps [simp del]

definition ltoa :: "32 word \<Rightarrow> string" where
  "ltoa val =
     (if sint val < 0 then CHR ''-'' # dec_digits (nat (- sint val))
      else dec_digits (nat (sint val)))"

subsection \<open>main\<close>

text \<open>The statements of \<open>main\<close> before its endless loop.\<close>

definition main_startup :: "state \<Rightarrow> state" where
  "main_startup s0 =
     (let s1 = s0\<lparr>lcd := lcd s0 @ [Lcd_init]\<rparr>;
          s2 = s1\<lparr>secTimer := ucast ONE_SEC_GATE\<rparr>;
          s3 = s2\<lparr>freqCounter := 0\<rparr>;
          s4 = s3\<lparr>flags := flags_Val_0\<rparr>;
          s5 = t1_init (t2_init s4);
          s6 = timer1On (timer2On s5);
          s7 = s6\<lparr>SREG_I := True\<rparr>
      in s7\<lparr>lcd := lcd s7 @ [Lcd_putstr ''Frequency Counter'']\<rparr>)"

text \<open>
  The frequency \<open>main\<close> computes from the two halves of the pulse count:
  \<open>(unsigned long)freqCounter * 65536UL\<close> plus \<open>(unsigned long)getTimer1()\<close>. The
  conversion of the signed int to unsigned long extends its sign (\<open>scast\<close>).
\<close>

definition compute_frequency :: "state \<Rightarrow> 32 word" where
  "compute_frequency s = ucast (freqCounter s) * 65536 + scast (getTimer1 s)"

text \<open>One pass through the body of \<open>while(1)\<close>.\<close>

definition main_loop_body :: "state \<Rightarrow> state" where
  "main_loop_body s =
     (if dataReady (flags s)
      then
        (let s1 = set_dataReady False s;
             s2 = s1\<lparr>frequency := compute_frequency s1\<rparr>;
             s3 = s2\<lparr>tempStr := ltoa (frequency s2)\<rparr>;
             s4 = s3\<lparr>lcd := lcd s3 @ [Lcd_clearLine 0]\<rparr>;
             s5 = s4\<lparr>lcd := lcd s4 @ [Lcd_putstr (tempStr s4)]\<rparr>;
             s6 = s5\<lparr>secTimer := ucast ONE_SEC_GATE\<rparr>;
             s7 = s6\<lparr>freqCounter := 0\<rparr>;
             s8 = t1_init (t2_init s7)
         in timer1On (timer2On s8))
      else s)"

subsection \<open>The counting hardware\<close>

text \<open>
  What the comments of counter.c say of the two timers. Timer 1, while switched
  on, adds one to \<open>TCNT1\<close> at every falling edge on pin T1; Timer 2, while switched on,
  adds one to \<open>TCNT2\<close> at every 51.2 us tick of the prescaler ("256 ticks will produce a
  roll-over"). A count register that wraps to 0 raises the overflow interrupt of its
  timer, and the handler runs: both overflow interrupts are enabled by \<open>t1_init\<close>,
  \<open>t2_init\<close> and \<open>sei()\<close> before the first overflow can come, and nothing disables
  them. A stopped timer (clock select 0) does not count. A handler runs to its end
  before the next pulse or tick is counted.
\<close>

definition pulse :: "state \<Rightarrow> state" where
  "pulse s =
     (if TCCR1B s = 0 then s
      else (let s1 = s\<lparr>TCNT1 := TCNT1 s + 1\<rparr>
            in if TCNT1 s1 = 0 then TIMER1_OVF_vect s1 else s1))"

definition tick :: "state \<Rightarrow> state" where
  "tick s =
     (if TCCR2B s = 0 then s
      else (let s1 = s\<lparr>TCNT2 := TCNT2 s + 1\<rparr>
            in if TCNT2 s1 = 0 then TIMER2_OVF_vect s1 else s1))"

fun pulses :: "nat \<Rightarrow> state \<Rightarrow> state" where
  "pulses 0 s = s"
| "pulses (Suc n) s = pulses n (pulse s)"

fun ticks :: "nat \<Rightarrow> state \<Rightarrow> state" where
  "ticks 0 s = s"
| "ticks (Suc n) s = ticks n (tick s)"

text \<open>
  The things that happen while the program runs: an input pulse, a prescaler tick, a
  pass through the main loop. The main loop changes shared state only in a pass that
  finds \<open>dataReady\<close> set, and those passes run with both timers stopped until their
  last two statements, so a pass is taken as one step.
\<close>

datatype event = Pulse | Tick | Loop

fun fire :: "event \<Rightarrow> state \<Rightarrow> state" where
  "fire Pulse s = pulse s"
| "fire Tick s = tick s"
| "fire Loop s = main_loop_body s"

fun run :: "event list \<Rightarrow> state \<Rightarrow> state" where
  "run [] s = s"
| "run (e # es) s = run es (fire e s)"

text \<open>
  The state after a reset: the I/O registers and the globals (in .bss) are zero, no
  driver call has been made. The locals of \<open>main\<close> start with no meaningful value;
  zero and the empty string stand for it.
\<close>

definition reset_state :: state where
  "reset_state =
     \<lparr>flags = flags_Val_0, secTimer = 0, freqCounter = 0,
      TCCR1A = 0, TCCR1B = 0, TCNT1 = 0, TIFR1 = 0, TIMSK1 = 0,
      TCCR2A = 0, TCCR2B = 0, TCNT2 = 0, TIFR2 = 0, TIMSK2 = 0,
      TCNT0 = 0, SREG_I = False, frequency = 0, tempStr = [], lcd = []\<rparr>"

text \<open>
  The pulse count the two halves of the Pulse Counter stand for: the overflow tally
  times \<open>2^16\<close> plus the hardware register.
\<close>

definition pulse_count :: "state \<Rightarrow> nat" where
  "pulse_count s = unat (freqCounter s) * 65536 + unat (TCNT1 s)"

text \<open>
  What is true whenever \<open>dataReady\<close> is set: \<open>lastSec\<close> is clear and both timers
  are stopped. And what startup establishes and nothing changes: the six spare flag
  bits are clear and interrupts are enabled.
\<close>

definition ready_inv :: "state \<Rightarrow> bool" where
  "ready_inv s =
     (dataReady (flags s) \<longrightarrow> \<not> lastSec (flags s) \<and> TCCR1B s = 0 \<and> TCCR2B s = 0)"

definition spare_inv :: "state \<Rightarrow> bool" where
  "spare_inv s =
     (\<not> bit2 (flags s) \<and> \<not> bit3 (flags s) \<and> \<not> bit4 (flags s) \<and>
      \<not> bit5 (flags s) \<and> \<not> bit6 (flags s) \<and> \<not> bit7 (flags s) \<and> SREG_I s)"

text \<open>
  The state a gate cycle starts from: everything but \<open>TCNT0\<close> (no statement reads
  it), the locals of \<open>main\<close> and the log of driver calls.
\<close>

definition cycle_state ::
  "state \<Rightarrow> FLAGS_TYPE \<times> 8 word \<times> 8 word \<times> (8 word \<times> 8 word \<times> 16 word \<times> 8 word \<times> 8 word) \<times>
     (8 word \<times> 8 word \<times> 8 word \<times> 8 word \<times> 8 word) \<times> bool" where
  "cycle_state s =
     (flags s, secTimer s, freqCounter s,
      (TCCR1A s, TCCR1B s, TCNT1 s, TIFR1 s, TIMSK1 s),
      (TCCR2A s, TCCR2B s, TCNT2 s, TIFR2 s, TIMSK2 s), SREG_I s)"

text \<open>The state \<open>main\<close> reaches from reset when it enters its loop.\<close>

definition gate_start :: state where
  "gate_start = main_startup reset_state"

text \<open>
  The prescaler tick of Timer 2 is 1024 cycles of the 20 MHz clock, so one second is
  20000000 / 1024 = 19531.25 ticks. Counted in quarters of a tick that is a whole
  number.
\<close>

definition quarter_ticks_per_second :: int where
  "quarter_ticks_per_second = 4 * 20000000 div 1024"

text \<open>
  The part of the state the Gate Timer and its handler read: the clock select and the
  count of Timer 2, \<open>secTimer\<close> and the two flags.
\<close>

definition gate_view :: "state \<Rightarrow> 8 word \<times> 8 word \<times> 8 word \<times> bool \<times> bool" where
  "gate_view s = (TCCR2B s, TCNT2 s, secTimer s, lastSec (flags s), dataReady (flags s))"

section \<open>Constants and conversions\<close>

lemmas stmt_defs =
  timer1Off_def timer2Off_def timer1On_def timer2On_def
  set_dataReady_def set_lastSec_def dec_secTimer_def set_TCNT0_def
  t1_init_def t2_init_def

lemma ONE_SEC_GATE_value: "ONE_SEC_GATE = 76"
  by (simp add: ONE_SEC_GATE_def)

lemma LAST_SEC_value: "LAST_SEC = 182"
  by (simp add: LAST_SEC_def)

lemma sint16_cases:
  "sint (t :: 16 word) = (if uint t < 32768 then uint t else uint t - 65536)"
proof -
  have b: "0 \<le> uint t" "uint t < 65536"
    using uint_bounded [of t] by simp_all
  have "sint t = take_bit 16 (uint t + 32768) - 32768"
    by (simp add: sint_uint signed_take_bit_eq_take_bit_shift)
  then have s: "sint t = (uint t + 32768) mod 65536 - 32768"
    by (simp add: take_bit_eq_mod)
  show ?thesis
  proof (cases "uint t < 32768")
    case True
    then have "(uint t + 32768) mod 65536 = uint t + 32768"
      using b by (intro mod_pos_pos_trivial) simp_all
    with s True show ?thesis by simp
  next
    case False
    have "uint t + 32768 = uint t - 32768 + 65536"
      by simp
    then have "(uint t + 32768) mod 65536 = (uint t - 32768 + 65536) mod 65536"
      by (rule arg_cong)
    also have "\<dots> = (uint t - 32768) mod 65536"
      by (rule mod_add_self2)
    also have "\<dots> = uint t - 32768"
      using b False by (intro mod_pos_pos_trivial) simp_all
    finally show ?thesis using s False by simp
  qed
qed

lemma uint_compute_frequency:
  "uint (compute_frequency s) =
     (uint (freqCounter s) * 65536 + sint (TCNT1 s)) mod 4294967296"
proof -
  have "compute_frequency s =
        word_of_int (uint (freqCounter s) * 65536 + sint (TCNT1 s))"
    by (simp add: compute_frequency_def getTimer1_def)
  then show ?thesis
    by (simp only: uint_word_of_int) simp
qed

lemma frequency_below_sign_bit: "unat (TCNT1 s) < 2 ^ 15 \<Longrightarrow>
  unat (compute_frequency s) = unat (freqCounter s) * 65536 + unat (TCNT1 s)"
proof -
  assume a: "unat (TCNT1 s) < 2 ^ 15"
  define f where "f = uint (freqCounter s)"
  define t where "t = uint (TCNT1 s)"
  have f: "0 \<le> f" "f < 256"
    using uint_bounded [of "freqCounter s"] by (simp_all add: f_def)
  have "t = int (unat (TCNT1 s))" unfolding t_def by (rule uint_nat)
  moreover from a have "unat (TCNT1 s) < 32768" by simp
  ultimately have t: "0 \<le> t" "t < 32768" by linarith+
  have "uint (compute_frequency s) = (f * 65536 + t) mod 4294967296"
    using t by (simp add: uint_compute_frequency sint16_cases f_def t_def)
  also have "\<dots> = f * 65536 + t"
    using f t by (intro mod_pos_pos_trivial) simp_all
  finally have "uint (compute_frequency s) = f * 65536 + t" .
  then have "int (unat (compute_frequency s)) =
             int (unat (freqCounter s) * 65536 + unat (TCNT1 s))"
    by (simp add: f_def t_def)
  then show ?thesis by (rule of_nat_eq_iff [THEN iffD1])
qed

lemma frequency_from_sign_bit: "2 ^ 15 \<le> unat (TCNT1 s) \<Longrightarrow>
  unat (compute_frequency s) \<noteq> unat (freqCounter s) * 65536 + unat (TCNT1 s)"
proof -
  assume a: "2 ^ 15 \<le> unat (TCNT1 s)"
  define f where "f = uint (freqCounter s)"
  define t where "t = uint (TCNT1 s)"
  have f: "0 \<le> f" "f < 256"
    using uint_bounded [of "freqCounter s"] by (simp_all add: f_def)
  have "t = int (unat (TCNT1 s))" unfolding t_def by (rule uint_nat)
  moreover from a have "32768 \<le> unat (TCNT1 s)" by simp
  moreover have "t < 65536"
    using uint_bounded [of "TCNT1 s"] by (simp add: t_def)
  ultimately have t: "32768 \<le> t" "t < 65536" by linarith+
  define k where "k = f * 65536 + t"
  have k: "32768 \<le> k" "k < 16777216" using f t by (simp_all add: k_def)
  have e: "f * 65536 + (t - 65536) = k - 65536"
    unfolding k_def by linarith
  have "uint (compute_frequency s) = (f * 65536 + (t - 65536)) mod 4294967296"
    using t by (simp add: uint_compute_frequency sint16_cases f_def t_def)
  then have u: "uint (compute_frequency s) = (k - 65536) mod 4294967296"
    by (simp only: e)
  have "(k - 65536) mod 4294967296 \<noteq> k"
  proof (cases "65536 \<le> k")
    case True
    then have "(k - 65536) mod 4294967296 = k - 65536"
      using k by (intro mod_pos_pos_trivial) simp_all
    then show ?thesis by simp
  next
    case False
    have "(k - 65536 + 4294967296) mod 4294967296 = (k - 65536) mod 4294967296"
      by (rule mod_add_self2)
    then have "(k - 65536) mod 4294967296 = (k - 65536 + 4294967296) mod 4294967296"
      by (rule sym)
    also have "\<dots> = k - 65536 + 4294967296"
      using k False by (intro mod_pos_pos_trivial) simp_all
    finally show ?thesis by simp
  qed
  with u have "uint (compute_frequency s) \<noteq> k" by simp
  then have "int (unat (compute_frequency s)) \<noteq>
             int (unat (freqCounter s) * 65536 + unat (TCNT1 s))"
    by (simp add: k_def f_def t_def)
  then show ?thesis unfolding of_nat_eq_iff .
qed

lemma ltoa_0: "ltoa 0 = ''0''"
  by (simp add: ltoa_def dec_digits.simps digit_char_def)

lemma getTimer1_negative:
  "2 ^ 15 \<le> unat (TCNT1 s) \<Longrightarrow> sint (getTimer1 s) < 0"
proof -
  assume a: "2 ^ 15 \<le> unat (TCNT1 s)"
  have "uint (TCNT1 s) = int (unat (TCNT1 s))" by (rule uint_nat)
  moreover from a have "32768 \<le> unat (TCNT1 s)" by simp
  moreover have "uint (TCNT1 s) < 65536"
    using uint_bounded [of "TCNT1 s"] by simp
  ultimately have "32768 \<le> uint (TCNT1 s)" "uint (TCNT1 s) < 65536" by linarith+
  then show ?thesis by (simp add: getTimer1_def sint16_cases)
qed

section \<open>Counting input pulses\<close>

lemma unat_plus_1_word8:
  "(x :: 8 word) + 1 \<noteq> 0 \<Longrightarrow> unat (x + 1) = Suc (unat x)"
  using unatSuc [of x] by (simp add: add.commute)

lemma unat_plus_1_word16:
  "(x :: 16 word) + 1 \<noteq> 0 \<Longrightarrow> unat (x + 1) = Suc (unat x)"
  using unatSuc [of x] by (simp add: add.commute)

lemma plus_1_eq_0_word16: "(x :: 16 word) + 1 = 0 \<Longrightarrow> unat x = 65535"
proof -
  assume "x + 1 = 0"
  then have "x = - 1" by (simp add: eq_neg_iff_add_eq_0)
  then show ?thesis by (simp add: unsigned_minus_1_eq_mask mask_eq_exp_minus_1)
qed

lemma unat_word8_less: "unat (x :: 8 word) < 256"
proof -
  have "unat x < 2 ^ LENGTH(8)" by (rule unsigned_less)
  then show ?thesis by simp
qed

lemma unat_word16_less: "unat (x :: 16 word) < 65536"
proof -
  have "unat x < 2 ^ LENGTH(16)" by (rule unsigned_less)
  then show ?thesis by simp
qed

lemma unat_freqCounter_inc:
  "unat ((c :: 8 word) + 1) = (unat c + 1) mod 256"
  by (simp add: unat_word_ariths)

lemma pulse_keeps_TCCR1B: "TCCR1B (pulse s) = TCCR1B s"
  by (simp add: pulse_def Let_def TIMER1_OVF_vect_def)

lemma pulse_count_pulse:
  assumes "TCCR1B s \<noteq> 0"
  shows "pulse_count (pulse s) = (pulse_count s + 1) mod 16777216"
proof (cases "TCNT1 s + 1 = 0")
  case True
  then have t: "unat (TCNT1 s) = 65535" by (rule plus_1_eq_0_word16)
  have "pulse_count (pulse s) = ((unat (freqCounter s) + 1) mod 256) * 65536"
    using assms True
    by (simp add: pulse_def Let_def TIMER1_OVF_vect_def pulse_count_def unat_freqCounter_inc)
  also have "\<dots> = ((unat (freqCounter s) + 1) * 65536) mod (256 * 65536)"
    by (simp only: mult_mod_left)
  also have "(unat (freqCounter s) + 1) * 65536 = pulse_count s + 1"
    by (simp add: pulse_count_def t)
  finally show ?thesis by simp
next
  case False
  have f: "unat (freqCounter s) < 256"
    by (rule unat_word8_less)
  have u: "unat (TCNT1 s + 1) = Suc (unat (TCNT1 s))"
    using False by (rule unat_plus_1_word16)
  have "unat (TCNT1 s + 1) < 65536"
    by (rule unat_word16_less)
  with u f have "pulse_count s + 1 < 16777216"
    by (simp add: pulse_count_def)
  moreover have "pulse_count (pulse s) = pulse_count s + 1"
    using assms False u by (simp add: pulse_def Let_def pulse_count_def)
  ultimately show ?thesis by simp
qed

lemma pulses_keep_TCCR1B: "TCCR1B (pulses n s) = TCCR1B s"
  by (induction n arbitrary: s) (simp_all add: pulse_keeps_TCCR1B)

lemma pulse_count_pulses:
  "TCCR1B s \<noteq> 0 \<Longrightarrow> pulse_count (pulses n s) = (pulse_count s + n) mod 16777216"
proof (induction n arbitrary: s)
  case 0
  have "unat (freqCounter s) < 256" "unat (TCNT1 s) < 65536"
    by (rule unat_word8_less, rule unat_word16_less)
  then have "pulse_count s < 16777216" by (simp add: pulse_count_def)
  then show ?case by simp
next
  case (Suc n)
  have "pulse_count (pulses (Suc n) s) = (pulse_count (pulse s) + n) mod 16777216"
    using Suc.prems by (simp add: Suc.IH pulse_keeps_TCCR1B)
  also have "\<dots> = ((pulse_count s + 1) mod 16777216 + n) mod 16777216"
    using Suc.prems by (simp add: pulse_count_pulse)
  also have "\<dots> = (pulse_count s + Suc n) mod 16777216"
    by (simp add: mod_add_left_eq)
  finally show ?case .
qed

lemma pulses_from_zero:
  assumes "TCCR1B s \<noteq> 0" "freqCounter s = 0" "TCNT1 s = 0"
  shows "unat (freqCounter (pulses n s)) = n div 65536 mod 256"
    and "unat (TCNT1 (pulses n s)) = n mod 65536"
proof -
  define f where "f = unat (freqCounter (pulses n s))"
  define t where "t = unat (TCNT1 (pulses n s))"
  have t: "t < 65536"
    unfolding t_def by (rule unat_word16_less)
  have "pulse_count (pulses n s) = n mod 16777216"
    using assms by (simp add: pulse_count_pulses) (simp add: pulse_count_def)
  then have e: "f * 65536 + t = n mod 16777216"
    by (simp add: pulse_count_def f_def t_def)
  from e t have "t = (n mod 16777216) mod 65536"
    by (metis mod_less mod_mult_self3)
  also have "\<dots> = n mod 65536"
    by (simp add: mod_mod_cancel)
  finally show "unat (TCNT1 (pulses n s)) = n mod 65536" by (simp add: t_def)
  from e t have "f = (n mod 16777216) div 65536"
    by (metis div_mult_self3 div_less add.right_neutral zero_neq_numeral)
  also have "\<dots> = n div 65536 mod 256"
  proof -
    have "n mod (65536 * 256) = 65536 * (n div 65536 mod 256) + n mod 65536"
      by (rule mod_mult2_eq)
    then have "n mod (65536 * 256) div 65536 =
               (65536 * (n div 65536 mod 256) + n mod 65536) div 65536"
      by (rule arg_cong)
    also have "\<dots> = n div 65536 mod 256"
      by simp
    finally show ?thesis by simp
  qed
  finally show "unat (freqCounter (pulses n s)) = n div 65536 mod 256" by (simp add: f_def)
qed

section \<open>Counting prescaler ticks\<close>

lemma plus_1_eq_0_word8: "(x :: 8 word) + 1 = 0 \<Longrightarrow> unat x = 255"
proof -
  assume "x + 1 = 0"
  then have "x = - 1" by (simp add: eq_neg_iff_add_eq_0)
  then show ?thesis by (simp add: unsigned_minus_1_eq_mask mask_eq_exp_minus_1)
qed

lemma TIMER2_OVF_gating:
  "\<not> lastSec (flags s) \<Longrightarrow> secTimer s \<noteq> 1 \<Longrightarrow>
   TIMER2_OVF_vect s = s\<lparr>secTimer := secTimer s - 1\<rparr>"
  by (simp add: TIMER2_OVF_vect_def TIMER2_OVF_stmts_def stmt_defs)

lemma TIMER2_OVF_last:
  "\<not> lastSec (flags s) \<Longrightarrow> secTimer s = 1 \<Longrightarrow>
   TIMER2_OVF_vect s =
     s\<lparr>secTimer := 0, TCNT0 := 182, flags := (flags s)\<lparr>lastSec := True\<rparr>\<rparr>"
  by (simp add: TIMER2_OVF_vect_def TIMER2_OVF_stmts_def stmt_defs LAST_SEC_value)

lemma TIMER2_OVF_closing:
  "lastSec (flags s) \<Longrightarrow>
   TIMER2_OVF_vect s =
     s\<lparr>TCCR1B := 0, TCCR2B := 0, flags := (flags s)\<lparr>dataReady := True, lastSec := False\<rparr>\<rparr>"
  by (simp add: TIMER2_OVF_vect_def TIMER2_OVF_stmts_def stmt_defs)

lemma tick_stopped: "TCCR2B s = 0 \<Longrightarrow> tick s = s"
  by (simp add: tick_def)

lemma tick_count:
  "TCCR2B s \<noteq> 0 \<Longrightarrow> TCNT2 s + 1 \<noteq> 0 \<Longrightarrow> tick s = s\<lparr>TCNT2 := TCNT2 s + 1\<rparr>"
  by (simp add: tick_def Let_def)

lemma tick_overflow:
  "TCCR2B s \<noteq> 0 \<Longrightarrow> TCNT2 s + 1 = 0 \<Longrightarrow> tick s = TIMER2_OVF_vect (s\<lparr>TCNT2 := 0\<rparr>)"
  by (simp add: tick_def Let_def)

lemma ticks_add: "ticks (a + b) s = ticks b (ticks a s)"
  by (induction a arbitrary: s) simp_all

lemma ticks_count:
  "TCCR2B s \<noteq> 0 \<Longrightarrow> unat (TCNT2 s) + k < 256 \<Longrightarrow>
   ticks k s = s\<lparr>TCNT2 := TCNT2 s + of_nat k\<rparr>"
proof (induction k arbitrary: s)
  case 0
  then show ?case by simp
next
  case (Suc k)
  have n: "TCNT2 s + 1 \<noteq> 0"
  proof
    assume "TCNT2 s + 1 = 0"
    then have "unat (TCNT2 s) = 255" by (rule plus_1_eq_0_word8)
    with Suc.prems(2) show False by simp
  qed
  then have u: "unat (TCNT2 s + 1) = Suc (unat (TCNT2 s))"
    by (rule unat_plus_1_word8)
  have t: "tick s = s\<lparr>TCNT2 := TCNT2 s + 1\<rparr>"
    using Suc.prems(1) n by (rule tick_count)
  have "ticks k (tick s) = (tick s)\<lparr>TCNT2 := TCNT2 (tick s) + of_nat k\<rparr>"
    using Suc.prems u by (intro Suc.IH) (simp_all add: t)
  then show ?case by (simp add: t add.assoc)
qed

lemma ticks_rollover:
  assumes "TCCR2B s \<noteq> 0" "TCNT2 s = 0"
  shows "ticks 256 s = TIMER2_OVF_vect s"
proof -
  have "ticks 255 s = s\<lparr>TCNT2 := 255\<rparr>"
    using assms ticks_count [of s 255] by simp
  moreover have "tick (s\<lparr>TCNT2 := 255\<rparr>) = TIMER2_OVF_vect (s\<lparr>TCNT2 := 255, TCNT2 := 0\<rparr>)"
    using assms tick_overflow [of "s\<lparr>TCNT2 := 255\<rparr>"] by simp
  moreover have "s\<lparr>TCNT2 := 255, TCNT2 := 0\<rparr> = s"
    using assms by simp
  moreover have "ticks 256 s = ticks 1 (ticks 255 s)"
    using ticks_add [of 255 1 s] by simp
  ultimately show ?thesis by simp
qed

lemma secTimer_not_1:
  assumes "Suc j < unat (c :: 8 word)"
  shows "c - of_nat j \<noteq> 1"
proof
  assume "c - of_nat j = 1"
  then have "c = of_nat (Suc j)" by (simp add: algebra_simps)
  moreover have "unat (of_nat (Suc j) :: 8 word) = Suc j mod 2 ^ LENGTH(8)"
    by (rule unat_of_nat)
  ultimately have "unat c = Suc j mod 2 ^ LENGTH(8)" by (simp only:)
  also have "\<dots> \<le> Suc j" by (rule mod_less_eq_dividend)
  finally show False using assms by simp
qed

lemma ticks_rollovers:
  "TCCR2B s \<noteq> 0 \<Longrightarrow> TCNT2 s = 0 \<Longrightarrow> \<not> lastSec (flags s) \<Longrightarrow> j < unat (secTimer s) \<Longrightarrow>
   ticks (256 * j) s = s\<lparr>secTimer := secTimer s - of_nat j\<rparr>"
proof (induction j)
  case 0
  then show ?case by simp
next
  case (Suc j)
  let ?s = "s\<lparr>secTimer := secTimer s - of_nat j\<rparr>"
  have "ticks (256 * Suc j) s = ticks 256 (ticks (256 * j) s)"
    using ticks_add [of "256 * j" 256 s] by (simp add: add.commute)
  also have "ticks (256 * j) s = ?s"
    using Suc by simp
  also have "ticks 256 ?s = TIMER2_OVF_vect ?s"
    using Suc.prems by (intro ticks_rollover) simp_all
  also have "\<dots> = ?s\<lparr>secTimer := secTimer ?s - 1\<rparr>"
    using Suc.prems secTimer_not_1 [of j "secTimer s"]
    by (intro TIMER2_OVF_gating) simp_all
  finally show ?case by (simp add: algebra_simps)
qed

lemma ticks_gating:
  assumes "TCCR2B s \<noteq> 0" "TCNT2 s = 0" "\<not> lastSec (flags s)"
    and "n < 256 * unat (secTimer s)"
  shows "ticks n s =
         s\<lparr>secTimer := secTimer s - of_nat (n div 256), TCNT2 := of_nat (n mod 256)\<rparr>"
proof -
  let ?s = "s\<lparr>secTimer := secTimer s - of_nat (n div 256)\<rparr>"
  from assms(4) have j: "n div 256 < unat (secTimer s)"
    by (simp add: div_less_iff_less_mult mult.commute) 
  have "ticks n s = ticks (n mod 256) (ticks (256 * (n div 256)) s)"
    using ticks_add [of "256 * (n div 256)" "n mod 256" s] by simp
  also have "ticks (256 * (n div 256)) s = ?s"
    using assms(1-3) j by (rule ticks_rollovers)
  also have "ticks (n mod 256) ?s = ?s\<lparr>TCNT2 := TCNT2 ?s + of_nat (n mod 256)\<rparr>"
    using assms(1,2) by (intro ticks_count) simp_all
  finally show ?thesis using assms(2) by simp
qed

lemma ticks_last_rollover:
  assumes "TCCR2B s \<noteq> 0" "TCNT2 s = 0" "\<not> lastSec (flags s)" "secTimer s \<noteq> 0"
  shows "ticks (256 * unat (secTimer s)) s =
         s\<lparr>secTimer := 0, TCNT0 := 182, flags := (flags s)\<lparr>lastSec := True\<rparr>\<rparr>"
proof -
  define j where "j = unat (secTimer s) - 1"
  have p: "0 < unat (secTimer s)" using assms(4) by (simp add: unat_gt_0)
  then have u: "unat (secTimer s) = Suc j" by (simp add: j_def)
  have "of_nat (unat (secTimer s)) = secTimer s" by simp
  then have c: "secTimer s = of_nat (Suc j)"
    by (simp only: u)
  let ?s = "s\<lparr>secTimer := secTimer s - of_nat j\<rparr>"
  have one: "secTimer ?s = 1" by (simp add: c)
  have "ticks (256 * Suc j) s = ticks 256 (ticks (256 * j) s)"
    using ticks_add [of "256 * j" 256 s] by (simp add: add.commute)
  also have "ticks (256 * j) s = ?s"
    using assms(1-3) u by (intro ticks_rollovers) simp_all
  also have "ticks 256 ?s = TIMER2_OVF_vect ?s"
    using assms by (intro ticks_rollover) simp_all
  also have "\<dots> = ?s\<lparr>secTimer := 0, TCNT0 := 182, flags := (flags ?s)\<lparr>lastSec := True\<rparr>\<rparr>"
    using assms(3) one by (intro TIMER2_OVF_last) simp_all
  finally show ?thesis by (simp add: u)
qed

section \<open>Handlers, invariants and runs\<close>

lemma last_trace: "last (trace fs s) = exec fs s"
proof (induction fs arbitrary: s)
  case Nil
  show ?case by simp
next
  case (Cons f fs)
  have "trace fs (f s) \<noteq> []" by (cases fs) simp_all
  then show ?case by (simp add: Cons.IH)
qed

lemma main_startup_fields:
  "flags (main_startup s0) = flags_Val_0"
  "secTimer (main_startup s0) = 76"
  "freqCounter (main_startup s0) = 0"
  "TCNT1 (main_startup s0) = 0"
  "TCNT2 (main_startup s0) = 0"
  "TCCR1B (main_startup s0) = 6"
  "TCCR2B (main_startup s0) = 7"
  "SREG_I (main_startup s0)"
  "TCNT0 (main_startup s0) = TCNT0 s0"
  by (simp_all add: main_startup_def Let_def stmt_defs ONE_SEC_GATE_value)

lemma ready_inv_startup: "ready_inv (main_startup s0)"
  by (simp add: ready_inv_def main_startup_fields flags_Val_0_def)

lemma spare_inv_startup: "spare_inv (main_startup s0)"
  by (simp add: spare_inv_def main_startup_fields flags_Val_0_def)

lemma TIMER2_OVF_cases:
  "TIMER2_OVF_vect s =
     (if lastSec (flags s)
      then s\<lparr>TCCR1B := 0, TCCR2B := 0,
             flags := (flags s)\<lparr>dataReady := True, lastSec := False\<rparr>\<rparr>
      else if secTimer s = 1
        then s\<lparr>secTimer := 0, TCNT0 := 182, flags := (flags s)\<lparr>lastSec := True\<rparr>\<rparr>
        else s\<lparr>secTimer := secTimer s - 1\<rparr>)"
  by (simp add: TIMER2_OVF_closing TIMER2_OVF_last TIMER2_OVF_gating)

lemma ready_inv_pulse: "ready_inv s \<Longrightarrow> ready_inv (pulse s)"
  by (auto simp: ready_inv_def pulse_def Let_def TIMER1_OVF_vect_def)

lemma ready_inv_tick: "ready_inv s \<Longrightarrow> ready_inv (tick s)"
  by (auto simp: ready_inv_def tick_def Let_def TIMER2_OVF_cases)

lemma ready_inv_loop: "ready_inv s \<Longrightarrow> ready_inv (main_loop_body s)"
  by (auto simp: ready_inv_def main_loop_body_def Let_def stmt_defs)

lemma ready_inv_fire: "ready_inv s \<Longrightarrow> ready_inv (fire e s)"
  by (cases e) (simp_all add: ready_inv_pulse ready_inv_tick ready_inv_loop)

lemma ready_inv_run: "ready_inv s \<Longrightarrow> ready_inv (run es s)"
  by (induction es arbitrary: s) (simp_all add: ready_inv_fire)

lemma spare_inv_fire: "spare_inv s \<Longrightarrow> spare_inv (fire e s)"
  by (cases e)
    (auto simp: spare_inv_def pulse_def tick_def Let_def TIMER1_OVF_vect_def
      TIMER2_OVF_cases main_loop_body_def stmt_defs)

lemma spare_inv_run: "spare_inv s \<Longrightarrow> spare_inv (run es s)"
  by (induction es arbitrary: s) (simp_all add: spare_inv_fire)

lemma run_append: "run (es @ fs) s = run fs (run es s)"
  by (induction es arbitrary: s) simp_all

lemma run_ticks: "run (replicate n Tick) s = ticks n s"
  by (induction n arbitrary: s) simp_all

lemma run_pulses: "run (replicate n Pulse) s = pulses n s"
  by (induction n arbitrary: s) simp_all

lemma trace_closing:
  "lastSec (flags s) \<Longrightarrow>
   trace (TIMER2_OVF_stmts s) s =
     [s, timer1Off s, timer2Off (timer1Off s),
      set_dataReady True (timer2Off (timer1Off s)),
      set_lastSec False (set_dataReady True (timer2Off (timer1Off s)))]"
  by (simp add: TIMER2_OVF_stmts_def)

lemma trace_gating_dataReady:
  "\<not> lastSec (flags s) \<Longrightarrow> t \<in> set (trace (TIMER2_OVF_stmts s) s) \<Longrightarrow>
   dataReady (flags t) = dataReady (flags s)"
  by (auto simp: TIMER2_OVF_stmts_def stmt_defs split: if_splits)

lemma TIMER1_OVF_funpow:
  "freqCounter ((TIMER1_OVF_vect ^^ n) s) = freqCounter s + of_nat n"
  by (induction n) (simp_all add: TIMER1_OVF_vect_def)

lemma main_loop_body_ready_fields:
  assumes "dataReady (flags s)"
  shows "flags (main_loop_body s) = (flags s)\<lparr>dataReady := False\<rparr>"
    and "secTimer (main_loop_body s) = ucast ONE_SEC_GATE"
    and "freqCounter (main_loop_body s) = 0"
    and "TCCR1A (main_loop_body s) = 0" and "TCCR1B (main_loop_body s) = 6"
    and "TCNT1 (main_loop_body s) = 0"
    and "TIFR1 (main_loop_body s) = BV TOV1" and "TIMSK1 (main_loop_body s) = BV TOIE1"
    and "TCCR2A (main_loop_body s) = 0" and "TCCR2B (main_loop_body s) = 7"
    and "TCNT2 (main_loop_body s) = 0"
    and "TIFR2 (main_loop_body s) = BV TOV2" and "TIMSK2 (main_loop_body s) = BV TOIE2"
    and "SREG_I (main_loop_body s) = SREG_I s"
    and "TCNT0 (main_loop_body s) = TCNT0 s"
  using assms by (simp_all add: main_loop_body_def Let_def stmt_defs)

lemma cycle_state_startup:
  "cycle_state (main_startup s0) =
     (flags_Val_0, ucast ONE_SEC_GATE, 0,
      (0, 6, 0, BV TOV1, BV TOIE1), (0, 7, 0, BV TOV2, BV TOIE2), True)"
  by (simp add: cycle_state_def main_startup_def Let_def stmt_defs)

lemma flags_after_ready:
  assumes "ready_inv s" "spare_inv s" "dataReady (flags s)"
  shows "(flags s)\<lparr>dataReady := False\<rparr> = flags_Val_0"
proof -
  have "\<not> lastSec (flags s)" using assms(1,3) by (simp add: ready_inv_def)
  then show ?thesis
    using assms(2) by (cases "flags s") (simp add: spare_inv_def flags_Val_0_def)
qed

section \<open>The run of the gate\<close>

lemma gate_open:
  assumes "n < 19456"
  shows "ticks n (main_startup s0) =
         (main_startup s0)\<lparr>secTimer := 76 - of_nat (n div 256), TCNT2 := of_nat (n mod 256)\<rparr>"
proof -
  have "ticks n (main_startup s0) =
        (main_startup s0)\<lparr>secTimer := secTimer (main_startup s0) - of_nat (n div 256),
                           TCNT2 := of_nat (n mod 256)\<rparr>"
    using assms by (intro ticks_gating) (simp_all add: main_startup_fields flags_Val_0_def)
  then show ?thesis by (simp add: main_startup_fields)
qed

lemma gate_last:
  "ticks 19456 (main_startup s0) =
   (main_startup s0)\<lparr>secTimer := 0, TCNT0 := 182, flags := flags_Val_0\<lparr>lastSec := True\<rparr>\<rparr>"
proof -
  have "ticks (256 * unat (secTimer (main_startup s0))) (main_startup s0) =
        (main_startup s0)\<lparr>secTimer := 0, TCNT0 := 182,
                           flags := (flags (main_startup s0))\<lparr>lastSec := True\<rparr>\<rparr>"
    by (intro ticks_last_rollover) (simp_all add: main_startup_fields flags_Val_0_def)
  then show ?thesis by (simp add: main_startup_fields)
qed

lemma gate_final:
  assumes "n < 256"
  shows "ticks (19456 + n) (main_startup s0) =
         (main_startup s0)\<lparr>secTimer := 0, TCNT0 := 182,
                            flags := flags_Val_0\<lparr>lastSec := True\<rparr>, TCNT2 := of_nat n\<rparr>"
proof -
  let ?L = "(main_startup s0)\<lparr>secTimer := 0, TCNT0 := 182,
                               flags := flags_Val_0\<lparr>lastSec := True\<rparr>\<rparr>"
  have "ticks (19456 + n) (main_startup s0) = ticks n ?L"
    by (simp only: ticks_add gate_last)
  also have "\<dots> = ?L\<lparr>TCNT2 := TCNT2 ?L + of_nat n\<rparr>"
    using assms by (intro ticks_count) (simp_all add: main_startup_fields)
  finally show ?thesis by (simp add: main_startup_fields)
qed

lemma gate_closed:
  "ticks 19712 (main_startup s0) =
   (main_startup s0)\<lparr>secTimer := 0, TCNT0 := 182, TCCR1B := 0, TCCR2B := 0,
                      flags := flags_Val_0\<lparr>dataReady := True\<rparr>\<rparr>"
proof -
  let ?L = "(main_startup s0)\<lparr>secTimer := 0, TCNT0 := 182,
                               flags := flags_Val_0\<lparr>lastSec := True\<rparr>\<rparr>"
  have "ticks (19456 + 256) (main_startup s0) = ticks 256 ?L"
    by (simp only: ticks_add gate_last)
  also have "\<dots> = TIMER2_OVF_vect ?L"
    by (intro ticks_rollover) (simp_all add: main_startup_fields)
  finally show ?thesis by (simp add: TIMER2_OVF_closing flags_Val_0_def)
qed

lemma gate_not_ready:
  assumes "n < 19712"
  shows "\<not> dataReady (flags (ticks n (main_startup s0)))"
proof (cases "n < 19456")
  case True
  then show ?thesis by (simp add: gate_open main_startup_fields flags_Val_0_def)
next
  case False
  then have "n = 19456 + (n - 19456)" "n - 19456 < 256" using assms by simp_all
  then show ?thesis
    using gate_final [of "n - 19456" s0] by (simp add: flags_Val_0_def)
qed

lemma gate_not_lastSec:
  assumes "n < 19456"
  shows "\<not> lastSec (flags (ticks n (main_startup s0)))"
  using assms by (simp add: gate_open main_startup_fields flags_Val_0_def)

lemma pulses_count:
  "TCCR1B s \<noteq> 0 \<Longrightarrow> unat (TCNT1 s) + k < 65536 \<Longrightarrow>
   pulses k s = s\<lparr>TCNT1 := TCNT1 s + of_nat k\<rparr>"
proof (induction k arbitrary: s)
  case 0
  then show ?case by simp
next
  case (Suc k)
  have n: "TCNT1 s + 1 \<noteq> 0"
  proof
    assume "TCNT1 s + 1 = 0"
    then have "unat (TCNT1 s) = 65535" by (rule plus_1_eq_0_word16)
    with Suc.prems(2) show False by simp
  qed
  then have u: "unat (TCNT1 s + 1) = Suc (unat (TCNT1 s))"
    by (rule unat_plus_1_word16)
  have t: "pulse s = s\<lparr>TCNT1 := TCNT1 s + 1\<rparr>"
    using Suc.prems(1) n by (simp add: pulse_def Let_def)
  have "pulses k (pulse s) = (pulse s)\<lparr>TCNT1 := TCNT1 (pulse s) + of_nat k\<rparr>"
    using Suc.prems u by (intro Suc.IH) (simp_all add: t)
  then show ?case by (simp add: t add.assoc)
qed

lemma gate_closes:
  assumes "TCCR2B s \<noteq> 0" "TCNT2 s = 0" "\<not> lastSec (flags s)" "secTimer s = 76"
  shows "ticks 19712 s =
         s\<lparr>secTimer := 0, TCNT0 := 182, TCCR1B := 0, TCCR2B := 0,
           flags := (flags s)\<lparr>dataReady := True, lastSec := False\<rparr>\<rparr>"
proof -
  let ?L = "s\<lparr>secTimer := 0, TCNT0 := 182, flags := (flags s)\<lparr>lastSec := True\<rparr>\<rparr>"
  have "ticks (256 * unat (secTimer s)) s = ?L"
    using assms by (intro ticks_last_rollover) simp_all
  then have l: "ticks 19456 s = ?L"
    using assms(4) by simp
  have "ticks (19456 + 256) s = ticks 256 ?L"
    by (simp only: ticks_add l)
  also have "\<dots> = TIMER2_OVF_vect ?L"
    using assms by (intro ticks_rollover) simp_all
  finally show ?thesis by (simp add: TIMER2_OVF_closing)
qed

section \<open>Gate cycles under pulses, ticks and loop passes\<close>

lemma gate_view_pulse: "gate_view (pulse s) = gate_view s"
  by (simp add: gate_view_def pulse_def Let_def TIMER1_OVF_vect_def)

lemma gate_view_tick:
  "gate_view s = gate_view t \<Longrightarrow> gate_view (tick s) = gate_view (tick t)"
  by (auto simp: gate_view_def tick_def Let_def TIMER2_OVF_cases)

lemma gate_view_dataReady:
  "gate_view s = gate_view t \<Longrightarrow> dataReady (flags s) = dataReady (flags t)"
  by (simp add: gate_view_def)

lemma ticks_Suc: "ticks (Suc n) s = tick (ticks n s)"
  using ticks_add [of n 1 s] by simp

lemma run_snoc: "run (es @ [e]) s = fire e (run es s)"
  by (simp add: run_append)

lemma cycle_open:
  assumes "TCCR2B s \<noteq> 0" "TCNT2 s = 0" "\<not> lastSec (flags s)" "secTimer s = 76"
    and "\<not> dataReady (flags s)" and "n < 19712"
  shows "\<not> dataReady (flags (ticks n s))"
proof (cases "n < 19456")
  case True
  have "ticks n s =
        s\<lparr>secTimer := secTimer s - of_nat (n div 256), TCNT2 := of_nat (n mod 256)\<rparr>"
    using assms(1-3) True by (intro ticks_gating) (simp_all add: assms(4))
  then show ?thesis using assms(5) by simp
next
  case False
  let ?L = "s\<lparr>secTimer := 0, TCNT0 := 182, flags := (flags s)\<lparr>lastSec := True\<rparr>\<rparr>"
  have "ticks (256 * unat (secTimer s)) s = ?L"
    using assms(1-3) by (intro ticks_last_rollover) (simp_all add: assms(4))
  then have l: "ticks 19456 s = ?L"
    by (simp add: assms(4))
  from False assms(6) have n: "n = 19456 + (n - 19456)" "n - 19456 < 256" by simp_all
  have "ticks (19456 + (n - 19456)) s = ticks (n - 19456) ?L"
    by (simp only: ticks_add l)
  also have "\<dots> = ?L\<lparr>TCNT2 := TCNT2 ?L + of_nat (n - 19456)\<rparr>"
    using assms(1,2) n(2) by (intro ticks_count) simp_all
  finally have "ticks n s = ?L\<lparr>TCNT2 := TCNT2 ?L + of_nat (n - 19456)\<rparr>"
    using n(1) by simp
  then show ?thesis using assms(5) by simp
qed

lemma cycle_run_view:
  assumes "TCCR2B s \<noteq> 0" "TCNT2 s = 0" "\<not> lastSec (flags s)" "secTimer s = 76"
    and "\<not> dataReady (flags s)"
  shows "count_list es Tick < 19712 \<Longrightarrow>
         gate_view (run es s) = gate_view (ticks (count_list es Tick) s)"
proof (induction es rule: rev_induct)
  case Nil
  show ?case by simp
next
  case (snoc e es)
  from snoc.prems have k: "count_list es Tick < 19712"
    by (cases e) simp_all
  then have v: "gate_view (run es s) = gate_view (ticks (count_list es Tick) s)"
    by (rule snoc.IH)
  show ?case
  proof (cases e)
    case Pulse
    then show ?thesis using v by (simp add: run_snoc gate_view_pulse)
  next
    case Tick
    have "gate_view (tick (run es s)) = gate_view (tick (ticks (count_list es Tick) s))"
      using v by (rule gate_view_tick)
    moreover have "run (es @ [e]) s = tick (run es s)"
      using Tick by (simp add: run_snoc)
    moreover have "count_list (es @ [e]) Tick = Suc (count_list es Tick)"
      using Tick by simp
    ultimately show ?thesis by (simp only: ticks_Suc)
  next
    case Loop
    have "\<not> dataReady (flags (ticks (count_list es Tick) s))"
      using assms k by (rule cycle_open)
    then have "\<not> dataReady (flags (run es s))"
      using gate_view_dataReady [OF v] by simp
    then have "main_loop_body (run es s) = run es s"
      by (simp add: main_loop_body_def)
    then show ?thesis using Loop v by (simp add: run_snoc)
  qed
qed

lemma cycle_run_open:
  assumes "TCCR2B s \<noteq> 0" "TCNT2 s = 0" "\<not> lastSec (flags s)" "secTimer s = 76"
    and "\<not> dataReady (flags s)" and "count_list es Tick < 19712"
  shows "\<not> dataReady (flags (run es s))"
proof -
  have "gate_view (run es s) = gate_view (ticks (count_list es Tick) s)"
    using assms by (rule cycle_run_view)
  moreover have "\<not> dataReady (flags (ticks (count_list es Tick) s))"
    using assms by (rule cycle_open)
  ultimately show ?thesis using gate_view_dataReady by blast
qed

lemma cycle_run_closes:
  assumes "TCCR2B s \<noteq> 0" "TCNT2 s = 0" "\<not> lastSec (flags s)" "secTimer s = 76"
    and "\<not> dataReady (flags s)" and "count_list es Tick = 19711"
  shows "dataReady (flags (run (es @ [Tick]) s))"
proof -
  have "gate_view (run es s) = gate_view (ticks 19711 s)"
    using cycle_run_view [OF assms(1-5), of es] assms(6) by simp
  then have "gate_view (tick (run es s)) = gate_view (tick (ticks 19711 s))"
    by (rule gate_view_tick)
  moreover have "tick (ticks 19711 s) = ticks 19712 s"
    using ticks_Suc [of 19711 s] by simp
  moreover have "dataReady (flags (ticks 19712 s))"
    using assms(1-4) by (simp add: gate_closes)
  ultimately show ?thesis
    using gate_view_dataReady [of "tick (run es s)" "ticks 19712 s"] by (simp add: run_snoc)
qed

lemma cycle_start_startup:
  "TCCR2B (main_startup s0) \<noteq> 0" "TCNT2 (main_startup s0) = 0"
  "\<not> lastSec (flags (main_startup s0))" "secTimer (main_startup s0) = 76"
  "\<not> dataReady (flags (main_startup s0))"
  by (simp_all add: main_startup_fields flags_Val_0_def)

lemma cycle_start_loop:
  assumes "dataReady (flags (run pre (main_startup s0)))"
  shows "TCCR2B (main_loop_body (run pre (main_startup s0))) \<noteq> 0"
    "TCNT2 (main_loop_body (run pre (main_startup s0))) = 0"
    "\<not> lastSec (flags (main_loop_body (run pre (main_startup s0))))"
    "secTimer (main_loop_body (run pre (main_startup s0))) = 76"
    "\<not> dataReady (flags (main_loop_body (run pre (main_startup s0))))"
proof -
  let ?s = "run pre (main_startup s0)"
  have "ready_inv ?s" by (intro ready_inv_run ready_inv_startup)
  then have "\<not> lastSec (flags ?s)" using assms by (simp add: ready_inv_def)
  then show "\<not> lastSec (flags (main_loop_body ?s))"
    using assms by (simp add: main_loop_body_ready_fields)
  show "TCCR2B (main_loop_body ?s) \<noteq> 0" "TCNT2 (main_loop_body ?s) = 0"
    "secTimer (main_loop_body ?s) = 76" "\<not> dataReady (flags (main_loop_body ?s))"
    using assms by (simp_all add: main_loop_body_ready_fields ONE_SEC_GATE_value)
qed

lemma count_list_replicate_Tick: "count_list (replicate n Tick) Tick = n"
  by (induction n) simp_all

section \<open>The Gate Timer overflow handler\<close>

text \<open>
  C1. At the 76th Gate Timer overflow of a cycle (\<open>secTimer = 1\<close>, \<open>lastSec\<close> clear;
  the state 19200 ticks after the start, with the 256 ticks of the 76th roll-over
  added) the handler decrements \<open>secTimer\<close> to 0 and sets \<open>lastSec\<close>, but it stores
  \<open>LAST_SEC\<close> in \<open>TCNT0\<close>: \<open>TCNT2\<close> stays 0, not 182. The next Gate Timer overflow
  then comes after 256 ticks and not after the 74 ticks the reload stands for: the gate
  is still open 74 and 255 ticks later and closes at the 256th.
\<close>

theorem last_sec_reload_misses_TCNT2:
  "secTimer (ticks 19200 gate_start) = 1 \<and>
   \<not> lastSec (flags (ticks 19200 gate_start)) \<and>
   ticks 19456 gate_start = TIMER2_OVF_vect (ticks 19200 gate_start) \<and>
   secTimer (ticks 19456 gate_start) = 0 \<and>
   lastSec (flags (ticks 19456 gate_start)) \<and>
   TCNT0 (ticks 19456 gate_start) = ucast LAST_SEC \<and>
   TCNT2 (ticks 19456 gate_start) = 0 \<and>
   TCNT2 (ticks 19456 gate_start) \<noteq> ucast LAST_SEC \<and>
   256 - unat LAST_SEC = 74 \<and>
   \<not> dataReady (flags (ticks (19456 + 74) gate_start)) \<and>
   \<not> dataReady (flags (ticks (19456 + 255) gate_start)) \<and>
   dataReady (flags (ticks (19456 + 256) gate_start))"
proof -
  have a: "ticks 19200 gate_start = gate_start\<lparr>secTimer := 1, TCNT2 := 0\<rparr>"
    unfolding gate_start_def using gate_open [of 19200 reset_state] by simp
  have b: "ticks 19456 gate_start = TIMER2_OVF_vect (ticks 19200 gate_start)"
    unfolding a unfolding gate_start_def
    by (simp add: gate_last TIMER2_OVF_last main_startup_fields flags_Val_0_def)
  have c: "\<not> dataReady (flags (ticks (19456 + 74) gate_start))"
    "\<not> dataReady (flags (ticks (19456 + 255) gate_start))"
    unfolding gate_start_def by (simp_all add: gate_not_ready)
  have d: "dataReady (flags (ticks (19456 + 256) gate_start))"
    unfolding gate_start_def by (simp add: gate_closed)
  have e: "secTimer (ticks 19456 gate_start) = 0"
    "lastSec (flags (ticks 19456 gate_start))"
    "TCNT0 (ticks 19456 gate_start) = ucast LAST_SEC"
    "TCNT2 (ticks 19456 gate_start) = 0"
    unfolding gate_start_def
    by (simp_all add: gate_last main_startup_fields LAST_SEC_value)
  have f: "secTimer (ticks 19200 gate_start) = 1"
    "\<not> lastSec (flags (ticks 19200 gate_start))"
    unfolding a unfolding gate_start_def
    by (simp_all add: main_startup_fields flags_Val_0_def)
  have g: "(0 :: 8 word) \<noteq> ucast LAST_SEC" "256 - unat LAST_SEC = 74"
    by (simp_all add: LAST_SEC_value)
  show ?thesis
    using b c d e f g by (simp only: simp_thms)
qed

text \<open>
  C3. The handler sets \<open>dataReady\<close> only with both timers stopped. Listing the states
  between the statements of one run of the handler: at the statement that turns
  \<open>dataReady\<close> from clear to set, \<open>TCCR1B\<close> and \<open>TCCR2B\<close> are already 0. The last state
  listed is the handler's result. When \<open>lastSec\<close> is set on entry the handler ends with
  \<open>dataReady\<close> set and both timers stopped. No other step sets \<open>dataReady\<close>: the
  handler entered with \<open>lastSec\<close> clear and the Timer 1 overflow handler leave it as it
  was, and a pass through the main loop always ends with it clear.
\<close>

theorem dataReady_only_after_timers_stopped:
  "(\<forall>i. Suc i < length (trace (TIMER2_OVF_stmts s) s) \<longrightarrow>
        \<not> dataReady (flags (trace (TIMER2_OVF_stmts s) s ! i)) \<longrightarrow>
        dataReady (flags (trace (TIMER2_OVF_stmts s) s ! Suc i)) \<longrightarrow>
        TCCR1B (trace (TIMER2_OVF_stmts s) s ! i) = 0 \<and>
        TCCR2B (trace (TIMER2_OVF_stmts s) s ! i) = 0) \<and>
   last (trace (TIMER2_OVF_stmts s) s) = TIMER2_OVF_vect s \<and>
   (lastSec (flags s) \<longrightarrow>
      dataReady (flags (TIMER2_OVF_vect s)) \<and>
      TCCR1B (TIMER2_OVF_vect s) = 0 \<and> TCCR2B (TIMER2_OVF_vect s) = 0) \<and>
   (\<not> lastSec (flags s) \<longrightarrow>
      dataReady (flags (TIMER2_OVF_vect s)) = dataReady (flags s)) \<and>
   dataReady (flags (TIMER1_OVF_vect s)) = dataReady (flags s) \<and>
   \<not> dataReady (flags (main_loop_body s))"
proof (intro conjI allI impI)
  fix i
  assume i: "Suc i < length (trace (TIMER2_OVF_stmts s) s)"
    and a: "\<not> dataReady (flags (trace (TIMER2_OVF_stmts s) s ! i))"
    and b: "dataReady (flags (trace (TIMER2_OVF_stmts s) s ! Suc i))"
  have l: "lastSec (flags s)"
  proof (rule ccontr)
    assume n: "\<not> lastSec (flags s)"
    have "trace (TIMER2_OVF_stmts s) s ! i \<in> set (trace (TIMER2_OVF_stmts s) s)"
      "trace (TIMER2_OVF_stmts s) s ! Suc i \<in> set (trace (TIMER2_OVF_stmts s) s)"
      using i by simp_all
    then have "dataReady (flags (trace (TIMER2_OVF_stmts s) s ! i)) =
               dataReady (flags (trace (TIMER2_OVF_stmts s) s ! Suc i))"
      using n by (simp add: trace_gating_dataReady)
    with a b show False by simp
  qed
  from i l have "i < 4" by (simp add: trace_closing)
  then consider "i = 0" | "i = 1" | "i = 2" | "i = 3" by linarith
  then have "i = 2"
    using a b l by cases (simp_all add: trace_closing stmt_defs)
  then show "TCCR1B (trace (TIMER2_OVF_stmts s) s ! i) = 0"
    and "TCCR2B (trace (TIMER2_OVF_stmts s) s ! i) = 0"
    using l by (simp_all add: trace_closing stmt_defs)
next
  show "last (trace (TIMER2_OVF_stmts s) s) = TIMER2_OVF_vect s"
    by (simp add: last_trace TIMER2_OVF_vect_def)
next
  show "\<not> dataReady (flags (main_loop_body s))"
    by (simp add: main_loop_body_def Let_def stmt_defs)
qed (simp_all add: TIMER2_OVF_cases TIMER1_OVF_vect_def)

theorem dataReady_only_after_timers_stopped_witness:
  "Suc 2 < length (trace (TIMER2_OVF_stmts (set_lastSec True gate_start))
                         (set_lastSec True gate_start)) \<and>
   \<not> dataReady (flags (trace (TIMER2_OVF_stmts (set_lastSec True gate_start))
                             (set_lastSec True gate_start) ! 2)) \<and>
   dataReady (flags (trace (TIMER2_OVF_stmts (set_lastSec True gate_start))
                           (set_lastSec True gate_start) ! Suc 2)) \<and>
   TCCR1B (trace (TIMER2_OVF_stmts (set_lastSec True gate_start))
                 (set_lastSec True gate_start) ! 2) = 0 \<and>
   TCCR2B (trace (TIMER2_OVF_stmts (set_lastSec True gate_start))
                 (set_lastSec True gate_start) ! 2) = 0 \<and>
   TCCR1B (trace (TIMER2_OVF_stmts (set_lastSec True gate_start))
                 (set_lastSec True gate_start) ! 0) = 6 \<and>
   lastSec (flags (set_lastSec True gate_start)) \<and>
   dataReady (flags (TIMER2_OVF_vect (set_lastSec True gate_start))) \<and>
   \<not> lastSec (flags gate_start) \<and>
   \<not> dataReady (flags (TIMER2_OVF_vect gate_start))"
proof -
  let ?A = "set_lastSec True gate_start"
  have l: "lastSec (flags ?A)" "\<not> lastSec (flags gate_start)" "\<not> dataReady (flags gate_start)"
    by (simp_all add: gate_start_def set_lastSec_def main_startup_fields flags_Val_0_def)
  have t: "trace (TIMER2_OVF_stmts ?A) ?A =
     [?A, timer1Off ?A, timer2Off (timer1Off ?A),
      set_dataReady True (timer2Off (timer1Off ?A)),
      set_lastSec False (set_dataReady True (timer2Off (timer1Off ?A)))]"
    using l(1) by (rule trace_closing)
  have h: "Suc 2 < length (trace (TIMER2_OVF_stmts ?A) ?A)"
    "\<not> dataReady (flags (trace (TIMER2_OVF_stmts ?A) ?A ! 2))"
    "dataReady (flags (trace (TIMER2_OVF_stmts ?A) ?A ! Suc 2))"
    "TCCR1B (trace (TIMER2_OVF_stmts ?A) ?A ! 0) = 6"
    unfolding t
    by (simp_all add: stmt_defs gate_start_def main_startup_fields flags_Val_0_def)
  from dataReady_only_after_timers_stopped [of ?A] h(1-3)
  have "TCCR1B (trace (TIMER2_OVF_stmts ?A) ?A ! 2) = 0"
    "TCCR2B (trace (TIMER2_OVF_stmts ?A) ?A ! 2) = 0"
    by blast+
  moreover from dataReady_only_after_timers_stopped [of ?A] l(1)
  have "dataReady (flags (TIMER2_OVF_vect ?A))" by blast
  moreover from dataReady_only_after_timers_stopped [of gate_start] l(2,3)
  have "\<not> dataReady (flags (TIMER2_OVF_vect gate_start))" by blast
  ultimately show ?thesis using h l by blast
qed

text \<open>
  C9. \<open>dataReady\<close> and \<open>lastSec\<close> are never both set: not in any state the program
  reaches from startup by input pulses, prescaler ticks (the handler runs inside them)
  and passes through the main loop. The handler run that sets \<open>dataReady\<close> clears
  \<open>lastSec\<close>; a handler run entered with \<open>lastSec\<close> clear, the only kind that can set
  \<open>lastSec\<close>, leaves \<open>dataReady\<close> as it was; so a run entered with \<open>dataReady\<close> clear
  never ends with both set.
\<close>

theorem dataReady_lastSec_exclusive:
  "\<not> (dataReady (flags (run es (main_startup s0))) \<and>
      lastSec (flags (run es (main_startup s0)))) \<and>
   (lastSec (flags s) \<longrightarrow>
      dataReady (flags (TIMER2_OVF_vect s)) \<and> \<not> lastSec (flags (TIMER2_OVF_vect s))) \<and>
   (\<not> lastSec (flags s) \<longrightarrow>
      dataReady (flags (TIMER2_OVF_vect s)) = dataReady (flags s)) \<and>
   (\<not> dataReady (flags s) \<longrightarrow>
      \<not> (dataReady (flags (TIMER2_OVF_vect s)) \<and> lastSec (flags (TIMER2_OVF_vect s))))"
proof -
  have "ready_inv (run es (main_startup s0))"
    by (intro ready_inv_run ready_inv_startup)
  then have "\<not> (dataReady (flags (run es (main_startup s0))) \<and>
      lastSec (flags (run es (main_startup s0))))"
    by (simp add: ready_inv_def)
  then show ?thesis by (simp add: TIMER2_OVF_cases)
qed

theorem dataReady_lastSec_exclusive_witness:
  "lastSec (flags (set_lastSec True gate_start)) \<and>
   dataReady (flags (TIMER2_OVF_vect (set_lastSec True gate_start))) \<and>
   \<not> lastSec (flags (TIMER2_OVF_vect (set_lastSec True gate_start))) \<and>
   \<not> lastSec (flags gate_start) \<and> \<not> dataReady (flags gate_start) \<and>
   \<not> dataReady (flags (TIMER2_OVF_vect gate_start)) \<and>
   \<not> (dataReady (flags (run [Tick, Loop, Pulse] (main_startup reset_state))) \<and>
      lastSec (flags (run [Tick, Loop, Pulse] (main_startup reset_state))))"
proof -
  have h: "lastSec (flags (set_lastSec True gate_start))"
    "\<not> lastSec (flags gate_start)" "\<not> dataReady (flags gate_start)"
    by (simp_all add: gate_start_def set_lastSec_def main_startup_fields flags_Val_0_def)
  show ?thesis
    using h dataReady_lastSec_exclusive [of "[Tick, Loop, Pulse]" reset_state "set_lastSec True gate_start"]
      dataReady_lastSec_exclusive [of "[Tick, Loop, Pulse]" reset_state gate_start]
    by blast
qed

text \<open>
  C4. In every gate cycle the gate closes at the 19712th prescaler tick of the cycle
  and not before: the handler never reloads \<open>TCNT2\<close>, so the final roll-over is a full
  one and the gate lasts 77 roll-overs of 256 ticks. This holds for the first cycle,
  from startup, and for every later one, from the pass of the main loop that finds
  \<open>dataReady\<close> set, whatever input pulses and idle passes of the main loop come in
  between: \<open>dataReady\<close> is clear while fewer than 19712 ticks of the cycle have come,
  and the 19712th sets it. 19712 ticks are 180.75 ticks (723 quarters of a tick) more
  than the 19531.25 ticks of one second, not within one tick of it.
\<close>

theorem gate_closes_at_19712_ticks:
  "(count_list es Tick < 19712 \<longrightarrow>
      \<not> dataReady (flags (run es (main_startup s0)))) \<and>
   (count_list es Tick = 19711 \<longrightarrow>
      dataReady (flags (run (es @ [Tick]) (main_startup s0)))) \<and>
   (dataReady (flags (run pre (main_startup s0))) \<longrightarrow>
      (count_list es Tick < 19712 \<longrightarrow>
         \<not> dataReady (flags (run (pre @ Loop # es) (main_startup s0)))) \<and>
      (count_list es Tick = 19711 \<longrightarrow>
         dataReady (flags (run (pre @ Loop # es @ [Tick]) (main_startup s0))))) \<and>
   abs (4 * 19712 - quarter_ticks_per_second) = 723 \<and>
   \<not> abs (4 * 19712 - quarter_ticks_per_second) \<le> 4"
proof (intro conjI impI)
  assume "count_list es Tick < 19712"
  with cycle_start_startup [of s0]
  show "\<not> dataReady (flags (run es (main_startup s0)))"
    by (rule cycle_run_open)
next
  assume "count_list es Tick = 19711"
  with cycle_start_startup [of s0]
  show "dataReady (flags (run (es @ [Tick]) (main_startup s0)))"
    by (rule cycle_run_closes)
next
  assume r: "dataReady (flags (run pre (main_startup s0)))"
    and c: "count_list es Tick < 19712"
  from cycle_start_loop [OF r] c
  have "\<not> dataReady (flags (run es (main_loop_body (run pre (main_startup s0)))))"
    by (rule cycle_run_open)
  then show "\<not> dataReady (flags (run (pre @ Loop # es) (main_startup s0)))"
    by (simp add: run_append)
next
  assume r: "dataReady (flags (run pre (main_startup s0)))"
    and c: "count_list es Tick = 19711"
  from cycle_start_loop [OF r] c
  have "dataReady (flags (run (es @ [Tick]) (main_loop_body (run pre (main_startup s0)))))"
    by (rule cycle_run_closes)
  then show "dataReady (flags (run (pre @ Loop # es @ [Tick]) (main_startup s0)))"
    by (simp add: run_append)
qed (simp_all add: quarter_ticks_per_second_def)

theorem gate_closes_at_19712_ticks_witness:
  "count_list (Pulse # Loop # replicate 19711 Tick) Tick = 19711 \<and>
   \<not> dataReady (flags (run (Pulse # Loop # replicate 19711 Tick) (main_startup reset_state))) \<and>
   dataReady (flags (run ((Pulse # Loop # replicate 19711 Tick) @ [Tick])
                         (main_startup reset_state))) \<and>
   dataReady (flags (run (replicate 19712 Tick) (main_startup reset_state))) \<and>
   \<not> dataReady (flags (run (replicate 19712 Tick @ Loop # Pulse # Loop # replicate 19711 Tick)
                           (main_startup reset_state))) \<and>
   dataReady (flags (run (replicate 19712 Tick @ Loop # (Pulse # Loop # replicate 19711 Tick) @ [Tick])
                         (main_startup reset_state)))"
proof -
  let ?es = "Pulse # Loop # replicate 19711 Tick"
  let ?pre = "replicate 19712 Tick"
  have c: "count_list ?es Tick = 19711"
    by (simp add: count_list_replicate_Tick)
  then have c': "count_list ?es Tick < 19712" by simp
  have r: "dataReady (flags (run ?pre (main_startup reset_state)))"
    by (simp add: run_ticks gate_closed)
  from gate_closes_at_19712_ticks [of ?es reset_state ?pre] c c' r
  have "\<not> dataReady (flags (run ?es (main_startup reset_state)))"
    and "dataReady (flags (run (?es @ [Tick]) (main_startup reset_state)))"
    and "\<not> dataReady (flags (run (?pre @ Loop # ?es) (main_startup reset_state)))"
    and "dataReady (flags (run (?pre @ Loop # ?es @ [Tick]) (main_startup reset_state)))"
    by blast+
  with c r show ?thesis by blast
qed

section \<open>The pulse counter\<close>

text \<open>
  C7, as stated, fails. The overflow tally \<open>freqCounter\<close> is back at 0 after 256
  overflows of Timer 1, well before \<open>2^16 - 1\<close> of them: 255 overflows leave it at 255,
  the 256th at 0. After \<open>2^24\<close> input pulses, a count below \<open>(2^16 - 1) * 2^16\<close>, both
  halves of the pulse count are 0 and the frequency computed from them is 0.
\<close>

theorem tally_wraps_at_256_counterexample:
  "(256 :: nat) < 2 ^ 16 - 1 \<and>
   freqCounter ((TIMER1_OVF_vect ^^ 255) gate_start) = 255 \<and>
   freqCounter ((TIMER1_OVF_vect ^^ 256) gate_start) = 0 \<and>
   (16777216 :: nat) < (2 ^ 16 - 1) * 2 ^ 16 \<and>
   freqCounter (pulses 16777216 gate_start) = 0 \<and>
   TCNT1 (pulses 16777216 gate_start) = 0 \<and>
   compute_frequency (pulses 16777216 gate_start) = 0"
proof -
  have s: "TCCR1B gate_start \<noteq> 0" "freqCounter gate_start = 0" "TCNT1 gate_start = 0"
    by (simp_all add: gate_start_def main_startup_fields)
  have "unat (freqCounter (pulses 16777216 gate_start)) = 0"
    "unat (TCNT1 (pulses 16777216 gate_start)) = 0"
    using pulses_from_zero [OF s, of 16777216] by simp_all
  then have p: "freqCounter (pulses 16777216 gate_start) = 0"
    "TCNT1 (pulses 16777216 gate_start) = 0"
    by (simp_all add: unat_eq_0)
  have "freqCounter ((TIMER1_OVF_vect ^^ 255) gate_start) = 255"
    "freqCounter ((TIMER1_OVF_vect ^^ 256) gate_start) = 0"
    by (simp_all add: TIMER1_OVF_funpow s)
  with p show ?thesis
    by (simp add: compute_frequency_def getTimer1_def)
qed

text \<open>
  C7, amended. The overflow tally is 8 bits wide: \<open>n\<close> overflows add \<open>n\<close> modulo 256.
  Starting from a cleared, running pulse counter, \<open>p\<close> input pulses leave
  \<open>p div 2^16 mod 256\<close> in \<open>freqCounter\<close> and \<open>p mod 2^16\<close> in \<open>TCNT1\<close>, so the two halves
  hold \<open>p mod 2^24\<close>: every count below \<open>2^24\<close> is held exactly, and is the frequency
  computed when moreover \<open>TCNT1\<close> ends below \<open>2^15\<close>.
\<close>

theorem tally_is_8_bits:
  "freqCounter ((TIMER1_OVF_vect ^^ n) s) = freqCounter s + of_nat n \<and>
   (freqCounter s = 0 \<longrightarrow> unat (freqCounter ((TIMER1_OVF_vect ^^ n) s)) = n mod 256) \<and>
   (TCCR1B s \<noteq> 0 \<and> freqCounter s = 0 \<and> TCNT1 s = 0 \<longrightarrow>
      unat (freqCounter (pulses p s)) = p div 65536 mod 256 \<and>
      unat (TCNT1 (pulses p s)) = p mod 65536 \<and>
      pulse_count (pulses p s) = p mod 2 ^ 24 \<and>
      (p < 2 ^ 24 \<longrightarrow> pulse_count (pulses p s) = p) \<and>
      (p < 2 ^ 24 \<and> p mod 65536 < 2 ^ 15 \<longrightarrow> unat (compute_frequency (pulses p s)) = p))"
proof (intro conjI impI)
  show "freqCounter ((TIMER1_OVF_vect ^^ n) s) = freqCounter s + of_nat n"
    by (rule TIMER1_OVF_funpow)
next
  assume "freqCounter s = 0"
  then have "unat (freqCounter ((TIMER1_OVF_vect ^^ n) s)) = unat (of_nat n :: 8 word)"
    by (simp add: TIMER1_OVF_funpow)
  also have "\<dots> = n mod 2 ^ LENGTH(8)" by (rule unat_of_nat)
  finally show "unat (freqCounter ((TIMER1_OVF_vect ^^ n) s)) = n mod 256" by simp
next
  assume a: "TCCR1B s \<noteq> 0 \<and> freqCounter s = 0 \<and> TCNT1 s = 0"
  then have s: "TCCR1B s \<noteq> 0" "freqCounter s = 0" "TCNT1 s = 0" by simp_all
  show f: "unat (freqCounter (pulses p s)) = p div 65536 mod 256"
    and t: "unat (TCNT1 (pulses p s)) = p mod 65536"
    using pulses_from_zero [OF s] by simp_all
  show m: "pulse_count (pulses p s) = p mod 2 ^ 24"
    using s by (simp add: pulse_count_pulses) (simp add: pulse_count_def)
  {
    assume "p < 2 ^ 24"
    then show "pulse_count (pulses p s) = p" using m by simp
  }
  {
    assume b: "p < 2 ^ 24 \<and> p mod 65536 < 2 ^ 15"
    then have "unat (TCNT1 (pulses p s)) < 2 ^ 15" using t by simp
    then have "unat (compute_frequency (pulses p s)) = pulse_count (pulses p s)"
      unfolding pulse_count_def by (rule frequency_below_sign_bit)
    then show "unat (compute_frequency (pulses p s)) = p" using m b by simp
  }
qed

theorem tally_is_8_bits_witness:
  "freqCounter gate_start = 0 \<and>
   unat (freqCounter ((TIMER1_OVF_vect ^^ 300) gate_start)) = 44 \<and>
   TCCR1B gate_start \<noteq> 0 \<and> TCNT1 gate_start = 0 \<and>
   (1000000 :: nat) < 2 ^ 24 \<and> (1000000 :: nat) mod 65536 < 2 ^ 15 \<and>
   unat (freqCounter (pulses 1000000 gate_start)) = 15 \<and>
   unat (TCNT1 (pulses 1000000 gate_start)) = 16960 \<and>
   pulse_count (pulses 1000000 gate_start) = 1000000 \<and>
   unat (compute_frequency (pulses 1000000 gate_start)) = 1000000"
proof -
  have s: "freqCounter gate_start = 0" "TCCR1B gate_start \<noteq> 0" "TCNT1 gate_start = 0"
    by (simp_all add: gate_start_def main_startup_fields)
  have n: "(1000000 :: nat) < 2 ^ 24" "(1000000 :: nat) mod 65536 < 2 ^ 15" by simp_all
  from tally_is_8_bits [of 300 gate_start 1000000] s n
  have "unat (freqCounter ((TIMER1_OVF_vect ^^ 300) gate_start)) = 300 mod 256"
    and "unat (freqCounter (pulses 1000000 gate_start)) = 1000000 div 65536 mod 256"
    and "unat (TCNT1 (pulses 1000000 gate_start)) = 1000000 mod 65536"
    and "pulse_count (pulses 1000000 gate_start) = 1000000"
    and "unat (compute_frequency (pulses 1000000 gate_start)) = 1000000"
    by blast+
  with s n show ?thesis by simp
qed

section \<open>The main loop\<close>

text \<open>
  C10. A pass through the main loop that finds \<open>dataReady\<close> clear leaves the whole
  state as it was: the flags, \<open>secTimer\<close>, \<open>freqCounter\<close>, every timer register, the
  locals and the log of driver calls. Hence a pass that changes anything found
  \<open>dataReady\<close> set.
\<close>

theorem main_loop_body_not_ready:
  "(\<not> dataReady (flags s) \<longrightarrow> main_loop_body s = s) \<and>
   (main_loop_body s \<noteq> s \<longrightarrow> dataReady (flags s))"
  by (simp add: main_loop_body_def)

theorem main_loop_body_not_ready_witness:
  "\<not> dataReady (flags (main_startup reset_state)) \<and>
   main_loop_body (main_startup reset_state) = main_startup reset_state \<and>
   main_loop_body (set_dataReady True reset_state) \<noteq> set_dataReady True reset_state \<and>
   dataReady (flags (set_dataReady True reset_state))"
proof -
  have l: "lcd (main_loop_body (set_dataReady True reset_state)) \<noteq>
           lcd (set_dataReady True reset_state)"
    by (simp add: main_loop_body_def Let_def stmt_defs reset_state_def)
  have b: "main_loop_body (set_dataReady True reset_state) \<noteq>
           set_dataReady True reset_state"
  proof
    assume "main_loop_body (set_dataReady True reset_state) = set_dataReady True reset_state"
    then have "lcd (main_loop_body (set_dataReady True reset_state)) =
               lcd (set_dataReady True reset_state)"
      by (rule arg_cong)
    with l show False by (rule notE)
  qed
  have a: "\<not> dataReady (flags (main_startup reset_state))"
    by (simp add: main_startup_def Let_def stmt_defs flags_Val_0_def)
  from a b show ?thesis
    using main_loop_body_not_ready [of "main_startup reset_state"]
      main_loop_body_not_ready [of "set_dataReady True reset_state"]
    by blast
qed

text \<open>
  C6. When \<open>freqCounter\<close> and \<open>TCNT1\<close> are both zero at gate close, the pass of the
  main loop that finds \<open>dataReady\<close> set computes the frequency 0, converts it to the
  string "0" and hands that string to the display after clearing line 0.
\<close>

theorem zero_frequency_reported:
  "dataReady (flags s) \<Longrightarrow> freqCounter s = 0 \<Longrightarrow> TCNT1 s = 0 \<Longrightarrow>
   frequency (main_loop_body s) = 0 \<and> tempStr (main_loop_body s) = ''0'' \<and>
   lcd (main_loop_body s) = lcd s @ [Lcd_clearLine 0, Lcd_putstr ''0'']"
  by (simp add: main_loop_body_def Let_def compute_frequency_def getTimer1_def
      stmt_defs ltoa_0)

theorem zero_frequency_reported_witness:
  "dataReady (flags (set_dataReady True reset_state)) \<and>
   freqCounter (set_dataReady True reset_state) = 0 \<and>
   TCNT1 (set_dataReady True reset_state) = 0 \<and>
   frequency (main_loop_body (set_dataReady True reset_state)) = 0 \<and>
   tempStr (main_loop_body (set_dataReady True reset_state)) = ''0'' \<and>
   lcd (main_loop_body (set_dataReady True reset_state)) =
     [Lcd_clearLine 0, Lcd_putstr ''0'']"
proof -
  have h: "dataReady (flags (set_dataReady True reset_state))"
    "freqCounter (set_dataReady True reset_state) = 0"
    "TCNT1 (set_dataReady True reset_state) = 0"
    "lcd (set_dataReady True reset_state) = []"
    by (simp_all add: set_dataReady_def reset_state_def)
  show ?thesis
    using h zero_frequency_reported [OF h(1) h(2) h(3)] by simp
qed

text \<open>
  C8. \<open>getTimer1\<close> hands the 16-bit register over as a signed 16-bit int. While the
  register is below \<open>2^15\<close> the frequency \<open>main\<close> computes is
  \<open>freqCounter * 65536 + TCNT1\<close>. From \<open>2^15\<close> on the int is negative, its conversion
  to unsigned long extends the sign, and the computed frequency is not that sum.
\<close>

theorem getTimer1_sign_extension:
  "(unat (TCNT1 s) < 2 ^ 15 \<longrightarrow>
      unat (compute_frequency s) = unat (freqCounter s) * 65536 + unat (TCNT1 s)) \<and>
   (2 ^ 15 \<le> unat (TCNT1 s) \<longrightarrow>
      sint (getTimer1 s) < 0 \<and>
      unat (compute_frequency s) \<noteq> unat (freqCounter s) * 65536 + unat (TCNT1 s))"
  using frequency_below_sign_bit [of s] frequency_from_sign_bit [of s]
    getTimer1_negative [of s]
  by blast

theorem getTimer1_sign_extension_witness:
  "unat (TCNT1 (reset_state\<lparr>freqCounter := 2, TCNT1 := 1000\<rparr>)) < 2 ^ 15 \<and>
   unat (compute_frequency (reset_state\<lparr>freqCounter := 2, TCNT1 := 1000\<rparr>)) = 132072 \<and>
   2 ^ 15 \<le> unat (TCNT1 (reset_state\<lparr>freqCounter := 2, TCNT1 := 40000\<rparr>)) \<and>
   sint (getTimer1 (reset_state\<lparr>freqCounter := 2, TCNT1 := 40000\<rparr>)) < 0 \<and>
   unat (compute_frequency (reset_state\<lparr>freqCounter := 2, TCNT1 := 40000\<rparr>)) \<noteq> 171072"
  using getTimer1_sign_extension [of "reset_state\<lparr>freqCounter := 2, TCNT1 := 1000\<rparr>"]
    getTimer1_sign_extension [of "reset_state\<lparr>freqCounter := 2, TCNT1 := 40000\<rparr>"]
  by simp

text \<open>
  C2. With 32768 input pulses in the gate, the gate closes with \<open>freqCounter = 0\<close> and
  \<open>TCNT1 = 32768\<close>, a pulse count of 32768, and \<open>dataReady\<close> set. The pass of the main
  loop that follows computes the frequency 4294934528 and hands the string "-32768"
  to the display.
\<close>

theorem frequency_at_32768_pulses:
  "pulse_count (run (replicate 32768 Pulse @ replicate 19712 Tick) gate_start) = 32768 \<and>
   dataReady (flags (run (replicate 32768 Pulse @ replicate 19712 Tick) gate_start)) \<and>
   unat (frequency (run (replicate 32768 Pulse @ replicate 19712 Tick @ [Loop]) gate_start))
     = 4294934528 \<and>
   lcd (run (replicate 32768 Pulse @ replicate 19712 Tick @ [Loop]) gate_start) =
     [Lcd_init, Lcd_putstr ''Frequency Counter'', Lcd_clearLine 0, Lcd_putstr ''-32768'']"
proof -
  have p: "pulses 32768 gate_start = gate_start\<lparr>TCNT1 := 32768\<rparr>"
    using pulses_count [of gate_start 32768]
    by (simp add: gate_start_def main_startup_fields)
  let ?P = "gate_start\<lparr>TCNT1 := 32768\<rparr>"
  have t: "ticks 19712 ?P =
        ?P\<lparr>secTimer := 0, TCNT0 := 182, TCCR1B := 0, TCCR2B := 0,
           flags := (flags ?P)\<lparr>dataReady := True, lastSec := False\<rparr>\<rparr>"
    by (intro gate_closes) (simp_all add: gate_start_def main_startup_fields flags_Val_0_def)
  have r: "run (replicate 32768 Pulse @ replicate 19712 Tick) gate_start = ticks 19712 ?P"
    by (simp only: run_append run_pulses run_ticks p)
  have r': "run (replicate 32768 Pulse @ replicate 19712 Tick @ [Loop]) gate_start =
            main_loop_body (ticks 19712 ?P)"
    using r by (simp only: run_append run_pulses run_ticks p run.simps fire.simps)
  have l: "lcd gate_start = [Lcd_init, Lcd_putstr ''Frequency Counter'']"
    by (simp add: gate_start_def main_startup_def Let_def stmt_defs reset_state_def)
  have f: "freqCounter gate_start = 0"
    by (simp add: gate_start_def main_startup_fields)
  show ?thesis
    unfolding r r' t
    by (simp add: pulse_count_def main_loop_body_def Let_def compute_frequency_def
        getTimer1_def stmt_defs l f ltoa_def dec_digits.simps digit_char_def)
qed

text \<open>
  C5. A pass through the main loop that finds \<open>dataReady\<close> set clears it, zeroes
  \<open>freqCounter\<close>, \<open>TCNT1\<close> and \<open>TCNT2\<close>, reloads \<open>secTimer\<close> with \<open>ONE_SEC_GATE\<close> and
  switches both timers on again. In every state the program reaches from startup
  with \<open>dataReady\<close> set, that pass ends in the state the first cycle started from:
  flags, \<open>secTimer\<close>, \<open>freqCounter\<close>, every register of Timer 1 and Timer 2 and the
  interrupt enable are as startup left them.
\<close>

theorem main_loop_restarts_cycle:
  "(dataReady (flags s) \<longrightarrow>
      \<not> dataReady (flags (main_loop_body s)) \<and>
      freqCounter (main_loop_body s) = 0 \<and> TCNT1 (main_loop_body s) = 0 \<and>
      TCNT2 (main_loop_body s) = 0 \<and> secTimer (main_loop_body s) = ucast ONE_SEC_GATE \<and>
      TCCR1B (main_loop_body s) = 6 \<and> TCCR2B (main_loop_body s) = 7) \<and>
   (dataReady (flags (run es (main_startup s0))) \<longrightarrow>
      cycle_state (main_loop_body (run es (main_startup s0))) =
      cycle_state (main_startup s1))"
proof (intro conjI impI)
  assume r: "dataReady (flags (run es (main_startup s0)))"
  let ?s = "run es (main_startup s0)"
  have i: "ready_inv ?s" "spare_inv ?s"
    by (intro ready_inv_run ready_inv_startup, intro spare_inv_run spare_inv_startup)
  then have "SREG_I ?s" by (simp add: spare_inv_def)
  moreover have "(flags ?s)\<lparr>dataReady := False\<rparr> = flags_Val_0"
    using i r by (rule flags_after_ready)
  ultimately show "cycle_state (main_loop_body ?s) = cycle_state (main_startup s1)"
    using r
    by (simp add: cycle_state_startup) (simp add: cycle_state_def main_loop_body_ready_fields)
qed (simp_all add: main_loop_body_ready_fields)

theorem main_loop_restarts_cycle_witness:
  "dataReady (flags (run (replicate 19712 Tick) (main_startup reset_state))) \<and>
   secTimer (run (replicate 19712 Tick) (main_startup reset_state)) = 0 \<and>
   TCCR2B (run (replicate 19712 Tick) (main_startup reset_state)) = 0 \<and>
   secTimer (main_loop_body (run (replicate 19712 Tick) (main_startup reset_state))) = 76 \<and>
   TCCR2B (main_loop_body (run (replicate 19712 Tick) (main_startup reset_state))) = 7 \<and>
   cycle_state (main_loop_body (run (replicate 19712 Tick) (main_startup reset_state))) =
   cycle_state (main_startup reset_state)"
proof -
  let ?s = "run (replicate 19712 Tick) (main_startup reset_state)"
  have e: "?s = ticks 19712 (main_startup reset_state)" by (rule run_ticks)
  have h: "dataReady (flags ?s)" "secTimer ?s = 0" "TCCR2B ?s = 0"
    unfolding e by (simp_all add: gate_closed)
  from main_loop_restarts_cycle [of ?s "replicate 19712 Tick" reset_state reset_state] h(1)
  have "secTimer (main_loop_body ?s) = ucast ONE_SEC_GATE"
    and "TCCR2B (main_loop_body ?s) = 7"
    and "cycle_state (main_loop_body ?s) = cycle_state (main_startup reset_state)"
    by blast+
  with h show ?thesis by (simp add: ONE_SEC_GATE_value)
qed

end
